theory Spec2Isabelle
  imports
    Main
    "HOL-Library.AList"
    "HOL-Library.Char_ord"
    "HOL-Library.List_Lexorder"
    "HOL-Library.Product_Lexorder"
    "HOL-Library.Multiset"
begin

section \<open>Data model (types/wallet.types.ts and the schema of ledger\_entries)\<close>

text \<open>
  The wallet service keeps three tables (wallets, asset\_types, ledger\_entries) and one
  materialized view (wallet\_balances). Rows are records; a table is the list of its rows
  in heap order (insertion order). JavaScript numbers that hold ids and amounts are
  modelled as unbounded \<open>int\<close>: the schema stores them as INTEGER / BIGINT and the
  request validation only lets integers through. Timestamps are natural numbers.
  Logging is observational and is left out.
\<close>

datatype EntryType = DEBIT | CREDIT

datatype TransactionType = TOPUP | BONUS | SPEND | TRANSFER | INITIAL_BALANCE | REFUND

datatype AccountType = USER | SYSTEM

text \<open>Values of the free-form metadata object (\<open>Record<string, unknown>\<close>).\<close>

datatype json = JNum int | JStr string

type_synonym metadata_obj = "(string \<times> json) list"

record AssetType =
  at_id :: int
  code :: string
  name :: string
  at_is_active :: bool

record Wallet =
  w_id :: int
  account_type :: AccountType
  user_id :: "string option"
  display_name :: string
  is_active :: bool

record LedgerEntry =
  le_id :: int
  transaction_id :: string
  wallet_id :: int
  asset_type_id :: int
  entry_type :: EntryType
  amount :: int
  transaction_type :: TransactionType
  reference_id :: string
  description :: "string option"
  metadata :: metadata_obj
  created_at :: nat

record WalletBalance =
  wb_wallet_id :: int
  wb_user_id :: "string option"
  wb_display_name :: string
  wb_asset_type_id :: int
  asset_code :: string
  asset_name :: string
  balance :: int
  last_transaction_at :: "nat option"

text \<open>
  The store. \<open>locked_rows\<close> lists the ids of the wallet rows on which some other
  in-flight transaction holds a row lock; \<open>ledger_seq\<close> is the next value of the
  BIGSERIAL sequence behind \<open>ledger_entries.id\<close>; \<open>clock\<close> is what \<open>NOW()\<close> returns.
  \<open>wallet_balances\<close> is the stored content of the materialized view, which only
  \<open>REFRESH MATERIALIZED VIEW\<close> changes.
\<close>

record Database =
  wallets :: "Wallet list"
  asset_types :: "AssetType list"
  ledger_entries :: "LedgerEntry list"
  wallet_balances :: "WalletBalance list"
  locked_rows :: "int list"
  ledger_seq :: int
  clock :: nat

text \<open>
  A \<open>PoolClient\<close> inside a transaction: the working copy of the store that the
  transaction reads and writes, and the wallet row locks it has taken, in the order it
  took them.
\<close>

record PoolClient =
  store :: Database
  held :: "int list"

section \<open>Errors (errors/index.ts and the PostgreSQL errors that pass through)\<close>

datatype PgError =
    UniqueViolation
  | ForeignKeyViolation
  | CheckViolation
  | StringDataRightTruncation
  | LockNotAvailable
  | InvalidRowCountInLimitClause
  | InvalidRowCountInResultOffsetClause

text \<open>
  The classes derived from \<open>WalletServiceError\<close>, with the fields their constructors
  store in \<open>details\<close>, and \<open>StorageError\<close> for an error object thrown by the
  database driver that no class of the service wraps. \<open>InsufficientFundsError\<close> holds
  the required amount, the available balance and the asset type id (the ledger service
  passes \<open>assetTypeId.toString()\<close> as the asset).
\<close>

datatype error =
    InsufficientFundsError int int int
  | DuplicateTransactionError string string
  | WalletNotFoundError string string
  | AssetTypeNotFoundError string
  | ValidationError string
  | ConcurrencyError string
  | StorageError PgError

section \<open>Repository: balance queries (repositories/wallet.repository.ts)\<close>

text \<open>SQL \<open>SUM\<close> over a set of rows is NULL when there is no row.\<close>

definition sql_sum :: "int list \<Rightarrow> int option" where
  "sql_sum xs = (if xs = [] then None else Some (sum_list xs))"

definition coalesce :: "int option \<Rightarrow> int \<Rightarrow> int" where
  "coalesce v d = (case v of None \<Rightarrow> d | Some x \<Rightarrow> x)"

text \<open>\<open>CASE WHEN entry_type = 'CREDIT' THEN amount ELSE -amount END\<close>\<close>

definition signed_amount :: "LedgerEntry \<Rightarrow> int" where
  "signed_amount e = (if entry_type e = CREDIT then amount e else - amount e)"

definition entries_of :: "int \<Rightarrow> int \<Rightarrow> LedgerEntry list \<Rightarrow> LedgerEntry list" where
  "entries_of walletId assetTypeId es =
     filter (\<lambda>e. wallet_id e = walletId \<and> asset_type_id e = assetTypeId) es"

definition calculateBalance :: "int \<Rightarrow> int \<Rightarrow> PoolClient \<Rightarrow> int" where
  "calculateBalance walletId assetTypeId client =
     coalesce
       (sql_sum (map signed_amount
          (entries_of walletId assetTypeId (ledger_entries (store client)))))
       0"


section \<open>Repository: wallet and asset lookups\<close>

text \<open>
  These run on the pool, outside any transaction, and read the committed store.
  \<open>result.rows[0]\<close> is the first matching row in heap order.
\<close>

definition findWalletByUserId :: "string \<Rightarrow> Database \<Rightarrow> error + Wallet" where
  "findWalletByUserId userId db =
     (case filter (\<lambda>w. user_id w = Some userId \<and> is_active w) (wallets db) of
        [] \<Rightarrow> Inl (WalletNotFoundError userId ''user_id'')
      | w # _ \<Rightarrow> Inr w)"

definition findSystemWalletByName :: "string \<Rightarrow> Database \<Rightarrow> error + Wallet" where
  "findSystemWalletByName displayName db =
     (case filter (\<lambda>w. display_name w = displayName \<and> account_type w = SYSTEM \<and> is_active w)
             (wallets db) of
        [] \<Rightarrow> Inl (WalletNotFoundError displayName ''wallet_id'')
      | w # _ \<Rightarrow> Inr w)"

definition findAssetTypeByCode :: "string \<Rightarrow> Database \<Rightarrow> error + AssetType" where
  "findAssetTypeByCode c db =
     (case filter (\<lambda>a. code a = c \<and> at_is_active a) (asset_types db) of
        [] \<Rightarrow> Inl (AssetTypeNotFoundError c)
      | a # _ \<Rightarrow> Inr a)"

section \<open>Repository: lock acquisition\<close>

text \<open>
  \<open>SELECT ... WHERE id = ANY(sortedIds) AND is_active = TRUE ORDER BY id ASC
  FOR UPDATE NOWAIT\<close>: the rows that qualify are locked in the order of the result;
  when one of them is locked by another transaction the statement fails at once with
  \<open>lock_not_available\<close>, which the \<open>catch\<close> block logs and throws again.
\<close>

definition lock_rows :: "int list \<Rightarrow> Database \<Rightarrow> Wallet list" where
  "lock_rows sortedIds db =
     sort_key w_id (filter (\<lambda>w. w_id w \<in> set sortedIds \<and> is_active w) (wallets db))"

definition lockWalletsInOrder ::
  "int list \<Rightarrow> PoolClient \<Rightarrow> (error + Wallet list) \<times> PoolClient" where
  "lockWalletsInOrder walletIds client =
     (let sortedIds = sort walletIds;
          rows = lock_rows sortedIds (store client)
      in if list_ex (\<lambda>w. w_id w \<in> set (locked_rows (store client))) rows
         then (Inl (StorageError LockNotAvailable), client)
         else (Inr rows, client\<lparr>held := held client @ map w_id rows\<rparr>))"

section \<open>Repository: ledger entries\<close>

text \<open>
  \<open>SELECT ... WHERE reference_id = $1 LIMIT 1\<close>: one of the matching rows, here the
  first in heap order.
\<close>

definition findLedgerEntryByReferenceId :: "string \<Rightarrow> PoolClient \<Rightarrow> LedgerEntry option" where
  "findLedgerEntryByReferenceId referenceId client =
     find (\<lambda>e. reference_id e = referenceId) (ledger_entries (store client))"

record CreateLedgerEntryParams =
  c_transactionId :: string
  c_walletId :: int
  c_assetTypeId :: int
  c_entryType :: EntryType
  c_amount :: int
  c_transactionType :: TransactionType
  c_referenceId :: string
  c_description :: "string option"
  c_metadata :: "metadata_obj option"

text \<open>
  The row that the INSERT builds: the nine parameters, \<open>params.description || null\<close>,
  \<open>params.metadata || {}\<close>, and the column defaults for \<open>id\<close> and \<open>created_at\<close>.
\<close>

definition new_row :: "CreateLedgerEntryParams \<Rightarrow> Database \<Rightarrow> LedgerEntry" where
  "new_row params db =
     \<lparr> le_id = ledger_seq db,
       transaction_id = c_transactionId params,
       wallet_id = c_walletId params,
       asset_type_id = c_assetTypeId params,
       entry_type = c_entryType params,
       amount = c_amount params,
       transaction_type = c_transactionType params,
       reference_id = c_referenceId params,
       description =
         (case c_description params of
            None \<Rightarrow> None
          | Some d \<Rightarrow> if d = [] then None else Some d),
       metadata = (case c_metadata params of None \<Rightarrow> [] | Some m \<Rightarrow> m),
       created_at = clock db \<rparr>"

text \<open>
  The INSERT fails when the row breaks a constraint of the table: \<open>reference_id
  VARCHAR(100)\<close>, \<open>CHECK (amount > 0)\<close>, \<open>UNIQUE (reference_id, entry_type)\<close>, and the
  two foreign keys to wallets and asset\_types. When a row breaks several of them, the
  order of the tests below decides which error is reported.
\<close>

definition insertLedgerEntry ::
  "CreateLedgerEntryParams \<Rightarrow> PoolClient \<Rightarrow> (error + LedgerEntry) \<times> PoolClient" where
  "insertLedgerEntry params client =
     (let db = store client;
          row = new_row params db
      in if 100 < length (reference_id row)
           then (Inl (StorageError StringDataRightTruncation), client)
         else if \<not> 0 < amount row
           then (Inl (StorageError CheckViolation), client)
         else if list_ex (\<lambda>e. reference_id e = reference_id row \<and> entry_type e = entry_type row)
                   (ledger_entries db)
           then (Inl (StorageError UniqueViolation), client)
         else if \<not> list_ex (\<lambda>w. w_id w = wallet_id row) (wallets db)
                 \<or> \<not> list_ex (\<lambda>a. at_id a = asset_type_id row) (asset_types db)
           then (Inl (StorageError ForeignKeyViolation), client)
         else (Inr row,
               client\<lparr>store := db\<lparr>ledger_entries := ledger_entries db @ [row],
                                   ledger_seq := ledger_seq db + 1\<rparr>\<rparr>))"

section \<open>Transactions (config/database.ts)\<close>

text \<open>
  \<open>withTransaction\<close>: BEGIN on a fresh client, run the callback, COMMIT when it
  returns and ROLLBACK when it throws. A rollback drops the working copy, a commit makes
  it the store; both release the row locks. Other transactions appear only through
  \<open>locked_rows\<close>; failures of the connection itself are outside the model.
\<close>

definition withTransaction ::
  "(PoolClient \<Rightarrow> (error + 'a) \<times> PoolClient) \<Rightarrow> Database \<Rightarrow> (error + 'a) \<times> Database" where
  "withTransaction callback db =
     (case callback \<lparr>store = db, held = []\<rparr> of
        (Inl e, client) \<Rightarrow> (Inl e, db)
      | (Inr r, client) \<Rightarrow> (Inr r, store client))"

section \<open>Ledger service (services/ledger.service.ts)\<close>

record TransactionParams =
  sourceWalletId :: int
  targetWalletId :: int
  assetTypeId :: int
  tp_amount :: int
  transactionType :: TransactionType
  referenceId :: string
  tp_description :: "string option"
  tp_metadata :: "metadata_obj option"

record TransactionResult =
  transactionId :: string
  debitEntry :: LedgerEntry
  creditEntry :: LedgerEntry
  newBalance :: int

record SingleEntryResult =
  s_transactionId :: string
  entry :: LedgerEntry
  s_newBalance :: int

text \<open>The object spread \<open>{ ...metadata, counterpartyWalletId: w }\<close>.\<close>

definition with_counterparty :: "metadata_obj option \<Rightarrow> int \<Rightarrow> metadata_obj" where
  "with_counterparty m w =
     AList.update ''counterpartyWalletId'' (JNum w) (case m of None \<Rightarrow> [] | Some kvs \<Rightarrow> kvs)"

text \<open>
  The callback of \<open>createTransaction\<close>. \<open>uuid\<close> is the value that \<open>uuidv4()\<close>
  returns in this call.
\<close>

definition createTransaction_callback ::
  "TransactionParams \<Rightarrow> string \<Rightarrow> PoolClient \<Rightarrow> (error + TransactionResult) \<times> PoolClient" where
  "createTransaction_callback params uuid client =
     (case findLedgerEntryByReferenceId (referenceId params) client of
        Some existingEntry \<Rightarrow>
          (Inl (DuplicateTransactionError (referenceId params) (transaction_id existingEntry)),
           client)
      | None \<Rightarrow>
         (case lockWalletsInOrder [sourceWalletId params, targetWalletId params] client of
            (Inl err, c1) \<Rightarrow>
              (Inl (ConcurrencyError ''Unable to acquire wallet locks, please retry''), c1)
          | (Inr locked, c1) \<Rightarrow>
             (let sourceBalance = calculateBalance (sourceWalletId params) (assetTypeId params) c1
              in if sourceBalance < tp_amount params
                 then (Inl (InsufficientFundsError (tp_amount params) sourceBalance
                              (assetTypeId params)), c1)
                 else
                  (case insertLedgerEntry
                          \<lparr> c_transactionId = uuid,
                            c_walletId = sourceWalletId params,
                            c_assetTypeId = assetTypeId params,
                            c_entryType = DEBIT,
                            c_amount = tp_amount params,
                            c_transactionType = transactionType params,
                            c_referenceId = referenceId params,
                            c_description = tp_description params,
                            c_metadata =
                              Some (with_counterparty (tp_metadata params) (targetWalletId params)) \<rparr>
                          c1 of
                     (Inl err, c2) \<Rightarrow> (Inl err, c2)
                   | (Inr debit, c2) \<Rightarrow>
                      (case insertLedgerEntry
                              \<lparr> c_transactionId = uuid,
                                c_walletId = targetWalletId params,
                                c_assetTypeId = assetTypeId params,
                                c_entryType = CREDIT,
                                c_amount = tp_amount params,
                                c_transactionType = transactionType params,
                                c_referenceId = referenceId params @ ''_credit'',
                                c_description = tp_description params,
                                c_metadata =
                                  Some (with_counterparty (tp_metadata params)
                                          (sourceWalletId params)) \<rparr>
                              c2 of
                         (Inl err, c3) \<Rightarrow> (Inl err, c3)
                       | (Inr credit, c3) \<Rightarrow>
                           (Inr \<lparr> transactionId = uuid,
                                  debitEntry = debit,
                                  creditEntry = credit,
                                  newBalance =
                                    calculateBalance (targetWalletId params) (assetTypeId params) c3 \<rparr>,
                            c3))))))"

definition createTransaction ::
  "TransactionParams \<Rightarrow> string \<Rightarrow> Database \<Rightarrow> (error + TransactionResult) \<times> Database" where
  "createTransaction params uuid db = withTransaction (createTransaction_callback params uuid) db"

definition createCreditOnlyTransaction_callback ::
  "int \<Rightarrow> int \<Rightarrow> int \<Rightarrow> TransactionType \<Rightarrow> string \<Rightarrow> string option \<Rightarrow> metadata_obj option
   \<Rightarrow> string \<Rightarrow> PoolClient \<Rightarrow> (error + SingleEntryResult) \<times> PoolClient" where
  "createCreditOnlyTransaction_callback walletId assetId amt ttype refId descr meta uuid client =
     (case findLedgerEntryByReferenceId refId client of
        Some existingEntry \<Rightarrow>
          (Inl (DuplicateTransactionError refId (transaction_id existingEntry)), client)
      | None \<Rightarrow>
         (case lockWalletsInOrder [walletId] client of
            (Inl err, c1) \<Rightarrow> (Inl err, c1)
          | (Inr locked, c1) \<Rightarrow>
             (case insertLedgerEntry
                     \<lparr> c_transactionId = uuid,
                       c_walletId = walletId,
                       c_assetTypeId = assetId,
                       c_entryType = CREDIT,
                       c_amount = amt,
                       c_transactionType = ttype,
                       c_referenceId = refId,
                       c_description = descr,
                       c_metadata = meta \<rparr>
                     c1 of
                (Inl err, c2) \<Rightarrow> (Inl err, c2)
              | (Inr e, c2) \<Rightarrow>
                  (Inr \<lparr> s_transactionId = uuid,
                         entry = e,
                         s_newBalance = calculateBalance walletId assetId c2 \<rparr>,
                   c2))))"

definition createCreditOnlyTransaction ::
  "int \<Rightarrow> int \<Rightarrow> int \<Rightarrow> TransactionType \<Rightarrow> string \<Rightarrow> string option \<Rightarrow> metadata_obj option
   \<Rightarrow> string \<Rightarrow> Database \<Rightarrow> (error + SingleEntryResult) \<times> Database" where
  "createCreditOnlyTransaction walletId assetId amt ttype refId descr meta uuid db =
     withTransaction
       (createCreditOnlyTransaction_callback walletId assetId amt ttype refId descr meta uuid) db"

definition createDebitOnlyTransaction_callback ::
  "int \<Rightarrow> int \<Rightarrow> int \<Rightarrow> TransactionType \<Rightarrow> string \<Rightarrow> string option \<Rightarrow> metadata_obj option
   \<Rightarrow> string \<Rightarrow> PoolClient \<Rightarrow> (error + SingleEntryResult) \<times> PoolClient" where
  "createDebitOnlyTransaction_callback walletId assetId amt ttype refId descr meta uuid client =
     (case findLedgerEntryByReferenceId refId client of
        Some existingEntry \<Rightarrow>
          (Inl (DuplicateTransactionError refId (transaction_id existingEntry)), client)
      | None \<Rightarrow>
         (case lockWalletsInOrder [walletId] client of
            (Inl err, c1) \<Rightarrow> (Inl err, c1)
          | (Inr locked, c1) \<Rightarrow>
             (let currentBalance = calculateBalance walletId assetId c1
              in if currentBalance < amt
                 then (Inl (InsufficientFundsError amt currentBalance assetId), c1)
                 else
                  (case insertLedgerEntry
                          \<lparr> c_transactionId = uuid,
                            c_walletId = walletId,
                            c_assetTypeId = assetId,
                            c_entryType = DEBIT,
                            c_amount = amt,
                            c_transactionType = ttype,
                            c_referenceId = refId,
                            c_description = descr,
                            c_metadata = meta \<rparr>
                          c1 of
                     (Inl err, c2) \<Rightarrow> (Inl err, c2)
                   | (Inr e, c2) \<Rightarrow>
                       (Inr \<lparr> s_transactionId = uuid,
                              entry = e,
                              s_newBalance = calculateBalance walletId assetId c2 \<rparr>,
                        c2)))))"

definition createDebitOnlyTransaction ::
  "int \<Rightarrow> int \<Rightarrow> int \<Rightarrow> TransactionType \<Rightarrow> string \<Rightarrow> string option \<Rightarrow> metadata_obj option
   \<Rightarrow> string \<Rightarrow> Database \<Rightarrow> (error + SingleEntryResult) \<times> Database" where
  "createDebitOnlyTransaction walletId assetId amt ttype refId descr meta uuid db =
     withTransaction
       (createDebitOnlyTransaction_callback walletId assetId amt ttype refId descr meta uuid) db"

section \<open>Materialized view of balances\<close>

text \<open>
  The view \<open>wallet_balances\<close> of the schema: one row per active wallet and active
  asset type, with the signed sum of the pair's entries (0 when there is none) and the
  latest \<open>created_at\<close>. \<open>refreshBalancesView\<close> stores the rows computed from the
  ledger as it is at that moment.
\<close>

definition view_row :: "LedgerEntry list \<Rightarrow> Wallet \<Rightarrow> AssetType \<Rightarrow> WalletBalance" where
  "view_row es w a =
     \<lparr> wb_wallet_id = w_id w,
       wb_user_id = user_id w,
       wb_display_name = display_name w,
       wb_asset_type_id = at_id a,
       asset_code = code a,
       asset_name = name a,
       balance = coalesce (sql_sum (map signed_amount (entries_of (w_id w) (at_id a) es))) 0,
       last_transaction_at =
         (case entries_of (w_id w) (at_id a) es of
            [] \<Rightarrow> None
          | e # rest \<Rightarrow> Some (fold max (map created_at rest) (created_at e))) \<rparr>"

definition refreshBalancesView :: "Database \<Rightarrow> Database" where
  "refreshBalancesView db =
     db\<lparr>wallet_balances :=
          concat (map (\<lambda>w. map (view_row (ledger_entries db) w)
                               (filter at_is_active (asset_types db)))
                      (filter is_active (wallets db)))\<rparr>"

text \<open>
  \<open>getBalancesFromView\<close>: the filter on the asset code is added only when
  \<open>assetCode\<close> is truthy, so neither \<open>undefined\<close> nor the empty string filters.
\<close>

definition getBalancesFromView :: "string \<Rightarrow> string option \<Rightarrow> Database \<Rightarrow> WalletBalance list" where
  "getBalancesFromView userId assetCode db =
     sort_key asset_code
       (filter (\<lambda>b. wb_user_id b = Some userId
                    \<and> (case assetCode of
                          None \<Rightarrow> True
                        | Some c \<Rightarrow> c = [] \<or> asset_code b = c))
          (wallet_balances db))"

section \<open>Wallet service: spend (services/wallet.service.ts)\<close>

record SpendRequest =
  sr_user_id :: string
  sr_asset_code :: string
  sr_amount :: int
  sr_reference_id :: string
  item_id :: string
  sr_metadata :: "metadata_obj option"

text \<open>The response without its \<open>timestamp\<close>, which is the wall clock of the server.\<close>

record TransactionResponse =
  r_transaction_id :: string
  r_user_id :: string
  r_asset_code :: string
  r_amount :: int
  r_balance :: int
  r_transaction_type :: TransactionType

definition REVENUE :: string where
  "REVENUE = ''Revenue Account''"

definition spend ::
  "SpendRequest \<Rightarrow> string \<Rightarrow> Database \<Rightarrow> (error + TransactionResponse) \<times> Database" where
  "spend request uuid db =
     (if sr_amount request \<le> 0
      then (Inl (ValidationError ''Amount must be greater than 0''), db)
      else
       (case findWalletByUserId (sr_user_id request) db of
          Inl err \<Rightarrow> (Inl err, db)
        | Inr userWallet \<Rightarrow>
           (case findAssetTypeByCode (sr_asset_code request) db of
              Inl err \<Rightarrow> (Inl err, db)
            | Inr assetType \<Rightarrow>
               (case findSystemWalletByName REVENUE db of
                  Inl err \<Rightarrow> (Inl err, db)
                | Inr revenueWallet \<Rightarrow>
                   (case createTransaction
                           \<lparr> sourceWalletId = w_id userWallet,
                             targetWalletId = w_id revenueWallet,
                             assetTypeId = at_id assetType,
                             tp_amount = sr_amount request,
                             transactionType = SPEND,
                             referenceId = sr_reference_id request,
                             tp_description = Some (''Purchase: '' @ item_id request),
                             tp_metadata =
                               Some (AList.update ''item_id'' (JStr (item_id request))
                                       (case sr_metadata request of
                                          None \<Rightarrow> []
                                        | Some kvs \<Rightarrow> kvs)) \<rparr>
                           uuid db of
                      (Inl err, db') \<Rightarrow> (Inl err, db')
                    | (Inr result, db') \<Rightarrow>
                       (let balances =
                              getBalancesFromView (sr_user_id request)
                                (Some (sr_asset_code request)) db';
                            currentBalance =
                              (case balances of [] \<Rightarrow> 0 | b # rest \<Rightarrow> balance b)
                        in (Inr \<lparr> r_transaction_id = transactionId result,
                                   r_user_id = sr_user_id request,
                                   r_asset_code = sr_asset_code request,
                                   r_amount = sr_amount request,
                                   r_balance = currentBalance,
                                   r_transaction_type = SPEND \<rparr>,
                            db')))))))"

section \<open>Repository: transaction history\<close>

record TransactionHistoryRow =
  h_id :: int
  h_transaction_id :: string
  h_reference_id :: string
  h_transaction_type :: TransactionType
  h_entry_type :: EntryType
  h_amount :: int
  h_description :: "string option"
  h_created_at :: nat
  balance_after :: int

record HistoryPage =
  transactions :: "TransactionHistoryRow list"
  hasMore :: bool

text \<open>The sort key \<open>created_at, id\<close> of the window and of the outer ORDER BY.\<close>

definition history_key :: "LedgerEntry \<Rightarrow> nat \<times> int" where
  "history_key e = (created_at e, le_id e)"

definition row_key :: "TransactionHistoryRow \<Rightarrow> nat \<times> int" where
  "row_key r = (h_created_at r, h_id r)"

text \<open>
  \<open>SUM(...) OVER (ORDER BY created_at ASC, id ASC)\<close>: with an ORDER BY and no frame
  clause the frame of a row runs from the first row of the partition to the last peer of
  the row, that is, it holds the rows whose sort key is at most the row's.
\<close>

definition window_sum :: "LedgerEntry list \<Rightarrow> LedgerEntry \<Rightarrow> int" where
  "window_sum part e =
     sum_list (map signed_amount (filter (\<lambda>e'. history_key e' \<le> history_key e) part))"

definition history_row :: "LedgerEntry list \<Rightarrow> LedgerEntry \<Rightarrow> TransactionHistoryRow" where
  "history_row part e =
     \<lparr> h_id = le_id e,
       h_transaction_id = transaction_id e,
       h_reference_id = reference_id e,
       h_transaction_type = transaction_type e,
       h_entry_type = entry_type e,
       h_amount = amount e,
       h_description = description e,
       h_created_at = created_at e,
       balance_after = window_sum part e \<rparr>"

text \<open>The common table expression \<open>transaction_data\<close>.\<close>

definition transaction_data :: "int \<Rightarrow> int \<Rightarrow> Database \<Rightarrow> TransactionHistoryRow list" where
  "transaction_data walletId assetId db =
     (let part = entries_of walletId assetId (ledger_entries db)
      in map (history_row part) part)"

text \<open>The rows of \<open>transaction_data\<close> in the order \<open>created_at DESC, id DESC\<close>.\<close>

definition ordered_history :: "int \<Rightarrow> int \<Rightarrow> Database \<Rightarrow> TransactionHistoryRow list" where
  "ordered_history walletId assetId db =
     rev (sort_key row_key (transaction_data walletId assetId db))"

text \<open>
  The whole statement, with \<open>$3\<close> and \<open>$4\<close> as \<open>lim\<close> and \<open>off\<close>:
  \<open>ORDER BY created_at DESC, id DESC LIMIT lim OFFSET off\<close>. PostgreSQL rejects a
  negative LIMIT and a negative OFFSET.
\<close>

definition history_query ::
  "int \<Rightarrow> int \<Rightarrow> int \<Rightarrow> int \<Rightarrow> Database \<Rightarrow> error + TransactionHistoryRow list" where
  "history_query walletId assetId lim off db =
     (if lim < 0 then Inl (StorageError InvalidRowCountInLimitClause)
      else if off < 0 then Inl (StorageError InvalidRowCountInResultOffsetClause)
      else Inr (take (nat lim) (drop (nat off) (ordered_history walletId assetId db))))"

text \<open>\<open>Array.prototype.slice(start, end)\<close>, where a negative index counts from the end.\<close>

definition js_slice :: "int \<Rightarrow> int \<Rightarrow> 'a list \<Rightarrow> 'a list" where
  "js_slice start end xs =
     (let len = int (length xs);
          k = (if start < 0 then max (len + start) 0 else min start len);
          final = (if end < 0 then max (len + end) 0 else min end len)
      in take (nat (final - k)) (drop (nat k) xs))"

definition getTransactionHistoryWithBalance ::
  "int \<Rightarrow> int \<Rightarrow> int \<Rightarrow> int \<Rightarrow> Database \<Rightarrow> error + HistoryPage" where
  "getTransactionHistoryWithBalance walletId assetId limit offset db =
     (case history_query walletId assetId (limit + 1) offset db of
        Inl err \<Rightarrow> Inl err
      | Inr result \<Rightarrow>
         (let more = limit < int (length result);
              txs = (if more then js_slice 0 limit result else result)
          in Inr \<lparr> transactions = txs, hasMore = more \<rparr>))"

text \<open>
  The running balance in the words of the specification: order the entries of the pair
  by creation time, then entry id; take them up to and including the entry; add credits
  and subtract debits.
\<close>

fun prefix_through :: "('a \<Rightarrow> bool) \<Rightarrow> 'a list \<Rightarrow> 'a list" where
  "prefix_through P [] = []"
| "prefix_through P (x # xs) = (if P x then [x] else x # prefix_through P xs)"

definition cumulative_balance :: "LedgerEntry list \<Rightarrow> int \<Rightarrow> int" where
  "cumulative_balance pair_entries entryId =
     sum_list (map signed_amount
       (prefix_through (\<lambda>e. le_id e = entryId) (sort_key history_key pair_entries)))"

section \<open>Example data: the scenarios of the specification\<close>

text \<open>
  A treasury, a user \<open>user_alice\<close>, the revenue account and a deactivated user
  \<open>user_bob\<close>; one asset type; and the ledger after scenario 1: the treasury was funded
  with 1000000, alice started with 100000 and was topped up with 5000 under the reference
  \<open>topup_001\<close>, so her balance is 105000.
\<close>

definition demo_wallets :: "Wallet list" where
  "demo_wallets =
     [\<lparr> w_id = 1, account_type = SYSTEM, user_id = None,
        display_name = ''Treasury - Gold Coins'', is_active = True \<rparr>,
      \<lparr> w_id = 4, account_type = USER, user_id = Some ''user_alice'',
        display_name = ''Alice'', is_active = True \<rparr>,
      \<lparr> w_id = 5, account_type = SYSTEM, user_id = None,
        display_name = ''Revenue Account'', is_active = True \<rparr>,
      \<lparr> w_id = 6, account_type = USER, user_id = Some ''user_bob'',
        display_name = ''Bob'', is_active = False \<rparr>]"

definition demo_assets :: "AssetType list" where
  "demo_assets =
     [\<lparr> at_id = 1, code = ''GOLD_COINS'', name = ''Gold Coins'', at_is_active = True \<rparr>]"

definition demo_entries :: "LedgerEntry list" where
  "demo_entries =
     [\<lparr> le_id = 1, transaction_id = ''S1'', wallet_id = 1, asset_type_id = 1,
        entry_type = CREDIT, amount = 1000000, transaction_type = INITIAL_BALANCE,
        reference_id = ''init_treasury'', description = None, metadata = [], created_at = 1 \<rparr>,
      \<lparr> le_id = 2, transaction_id = ''S2'', wallet_id = 4, asset_type_id = 1,
        entry_type = CREDIT, amount = 100000, transaction_type = INITIAL_BALANCE,
        reference_id = ''init_alice'', description = None, metadata = [], created_at = 1 \<rparr>,
      \<lparr> le_id = 3, transaction_id = ''T1'', wallet_id = 1, asset_type_id = 1,
        entry_type = DEBIT, amount = 5000, transaction_type = TOPUP,
        reference_id = ''topup_001'', description = None,
        metadata = [(''counterpartyWalletId'', JNum 4)], created_at = 2 \<rparr>,
      \<lparr> le_id = 4, transaction_id = ''T1'', wallet_id = 4, asset_type_id = 1,
        entry_type = CREDIT, amount = 5000, transaction_type = TOPUP,
        reference_id = ''topup_001_credit'', description = None,
        metadata = [(''counterpartyWalletId'', JNum 1)], created_at = 2 \<rparr>]"

definition demo_db :: Database where
  "demo_db =
     \<lparr> wallets = demo_wallets, asset_types = demo_assets, ledger_entries = demo_entries,
       wallet_balances = [], locked_rows = [], ledger_seq = 5, clock = 3 \<rparr>"

text \<open>Scenario 2: alice spends 2500 under the reference \<open>spend_001\<close>.\<close>

definition demo_spend_params :: TransactionParams where
  "demo_spend_params =
     \<lparr> sourceWalletId = 4, targetWalletId = 5, assetTypeId = 1, tp_amount = 2500,
       transactionType = SPEND, referenceId = ''spend_001'',
       tp_description = None, tp_metadata = None \<rparr>"

definition demo_spend_request :: SpendRequest where
  "demo_spend_request =
     \<lparr> sr_user_id = ''user_alice'', sr_asset_code = ''GOLD_COINS'', sr_amount = 2500,
       sr_reference_id = ''spend_001'', item_id = ''dragon_skin'', sr_metadata = None \<rparr>"



section \<open>Transactions as groups of entries\<close>

text \<open>
  The entries that share a transaction id, and their sum for one asset type with credit
  amounts added and debit amounts subtracted.
\<close>

definition entries_of_transaction :: "string \<Rightarrow> LedgerEntry list \<Rightarrow> LedgerEntry list" where
  "entries_of_transaction tid es = filter (\<lambda>e. transaction_id e = tid) es"

definition transaction_sum :: "string \<Rightarrow> int \<Rightarrow> LedgerEntry list \<Rightarrow> int" where
  "transaction_sum tid assetId es =
     sum_list (map signed_amount
       (filter (\<lambda>e. asset_type_id e = assetId) (entries_of_transaction tid es)))"

section \<open>Lock contention\<close>

text \<open>
  Some wallet row that the lock statement selects for \<open>walletIds\<close> is locked by another
  in-flight transaction.
\<close>

definition contended :: "int list \<Rightarrow> Database \<Rightarrow> bool" where
  "contended walletIds db =
     list_ex (\<lambda>w. w_id w \<in> set (locked_rows db)) (lock_rows (sort walletIds) db)"

text \<open>Further requests on the example data.\<close>

definition demo_topup_retry_params :: TransactionParams where
  "demo_topup_retry_params =
     \<lparr> sourceWalletId = 1, targetWalletId = 4, assetTypeId = 1, tp_amount = 5000,
       transactionType = TOPUP, referenceId = ''topup_001'',
       tp_description = None, tp_metadata = None \<rparr>"

definition demo_db_alice_locked :: Database where
  "demo_db_alice_locked = demo_db\<lparr>locked_rows := [4]\<rparr>"


text \<open>The example store after scenario 2 (the spend of 2500 has been committed).\<close>

definition demo_db_after_spend :: Database where
  "demo_db_after_spend =
     demo_db\<lparr>ledger_entries := demo_entries @
       [\<lparr> le_id = 5, transaction_id = ''T2'', wallet_id = 4, asset_type_id = 1,
          entry_type = DEBIT, amount = 2500, transaction_type = SPEND,
          reference_id = ''spend_001'', description = None,
          metadata = [(''counterpartyWalletId'', JNum 5)], created_at = 3 \<rparr>,
        \<lparr> le_id = 6, transaction_id = ''T2'', wallet_id = 5, asset_type_id = 1,
          entry_type = CREDIT, amount = 2500, transaction_type = SPEND,
          reference_id = ''spend_001_credit'', description = None,
          metadata = [(''counterpartyWalletId'', JNum 4)], created_at = 3 \<rparr>],
       ledger_seq := 7, clock := 4\<rparr>"

section \<open>Balance derivation\<close>






section \<open>Steps of a ledger operation\<close>

lemma lockWalletsInOrder_Inr:
  "lockWalletsInOrder ids c = (Inr rows, c') \<Longrightarrow> c' = c\<lparr>held := held c @ map w_id rows\<rparr>"
  by (auto simp: lockWalletsInOrder_def Let_def split: if_splits)

lemma insertLedgerEntry_Inr:
  "insertLedgerEntry p c = (Inr row, c') \<Longrightarrow>
     row = new_row p (store c) \<and>
     c' = c\<lparr>store := (store c)\<lparr>ledger_entries := ledger_entries (store c) @ [row],
                                ledger_seq := ledger_seq (store c) + 1\<rparr>\<rparr>"
  by (auto simp: insertLedgerEntry_def Let_def split: if_splits)

text \<open>What a transfer that returns has done.\<close>

lemma createTransaction_Inr:
  assumes "createTransaction p uuid db = (Inr res, db')"
  shows "findLedgerEntryByReferenceId (referenceId p) \<lparr>store = db, held = []\<rparr> = None"
    and "tp_amount p \<le> calculateBalance (sourceWalletId p) (assetTypeId p) \<lparr>store = db, held = []\<rparr>"
    and "transactionId res = uuid"
    and "db' = db\<lparr>ledger_entries := ledger_entries db @ [debitEntry res, creditEntry res],
                   ledger_seq := ledger_seq db + 2\<rparr>"
    and "transaction_id (debitEntry res) = uuid \<and> wallet_id (debitEntry res) = sourceWalletId p
         \<and> asset_type_id (debitEntry res) = assetTypeId p \<and> entry_type (debitEntry res) = DEBIT
         \<and> amount (debitEntry res) = tp_amount p
         \<and> reference_id (debitEntry res) = referenceId p"
    and "transaction_id (creditEntry res) = uuid \<and> wallet_id (creditEntry res) = targetWalletId p
         \<and> asset_type_id (creditEntry res) = assetTypeId p \<and> entry_type (creditEntry res) = CREDIT
         \<and> amount (creditEntry res) = tp_amount p
         \<and> reference_id (creditEntry res) = referenceId p @ ''_credit''"
  using assms
  unfolding createTransaction_def withTransaction_def createTransaction_callback_def
  by (auto simp: Let_def new_row_def calculateBalance_def
           dest!: insertLedgerEntry_Inr lockWalletsInOrder_Inr
           split: option.splits sum.splits prod.splits if_splits)

section \<open>Zero-sum transfers\<close>

lemma filter_fresh_transaction:
  "uuid \<notin> transaction_id ` set es \<Longrightarrow> filter (\<lambda>e. transaction_id e = uuid) es = []"
  by (induction es) auto

text \<open>
  Claim C1. When a transfer (\<open>createTransaction\<close>) returns, with a transaction id that
  no earlier entry carries, the ledger has grown by exactly two entries, which are all
  the entries of that transaction id: one DEBIT on the source and one CREDIT on the
  target, both with the requested amount and asset type. For every asset type, the
  entries of the transaction sum to zero when credits are added and debits subtracted.
\<close>

theorem createTransaction_zero_sum:
  assumes "createTransaction p uuid db = (Inr res, db')"
    and "uuid \<notin> transaction_id ` set (ledger_entries db)"
  shows "transactionId res = uuid
    \<and> ledger_entries db' = ledger_entries db @ [debitEntry res, creditEntry res]
    \<and> entries_of_transaction uuid (ledger_entries db') = [debitEntry res, creditEntry res]
    \<and> entry_type (debitEntry res) = DEBIT \<and> wallet_id (debitEntry res) = sourceWalletId p
    \<and> entry_type (creditEntry res) = CREDIT \<and> wallet_id (creditEntry res) = targetWalletId p
    \<and> amount (debitEntry res) = tp_amount p \<and> amount (creditEntry res) = tp_amount p
    \<and> asset_type_id (debitEntry res) = assetTypeId p
    \<and> asset_type_id (creditEntry res) = assetTypeId p
    \<and> (\<forall>a. transaction_sum uuid a (ledger_entries db') = 0)"
proof -
  note facts = createTransaction_Inr [OF assms(1)]
  have grown: "ledger_entries db' = ledger_entries db @ [debitEntry res, creditEntry res]"
    using facts(4) by simp
  have group: "entries_of_transaction uuid (ledger_entries db')
               = [debitEntry res, creditEntry res]"
    using facts(5,6) filter_fresh_transaction [OF assms(2)]
    by (simp add: entries_of_transaction_def grown)
  have zero: "transaction_sum uuid a (ledger_entries db') = 0" for a
    using facts(5,6) by (simp add: transaction_sum_def group signed_amount_def)
  show ?thesis
    using facts(3,5,6) grown group zero by simp
qed

lemmas demo_data =
  demo_db_def demo_wallets_def demo_assets_def demo_entries_def

lemmas ledger_steps =
  withTransaction_def findLedgerEntryByReferenceId_def lockWalletsInOrder_def lock_rows_def
  calculateBalance_def coalesce_def sql_sum_def signed_amount_def entries_of_def
  insertLedgerEntry_def new_row_def with_counterparty_def

lemma demo_spend_returns:
  "\<exists>res db'. createTransaction demo_spend_params ''T2'' demo_db = (Inr res, db')"
  by (simp add: demo_data demo_spend_params_def createTransaction_def
        createTransaction_callback_def ledger_steps Let_def)

theorem createTransaction_zero_sum_witness:
  "\<exists>res db'. createTransaction demo_spend_params ''T2'' demo_db = (Inr res, db')
     \<and> ''T2'' \<notin> transaction_id ` set (ledger_entries demo_db)
     \<and> entries_of_transaction ''T2'' (ledger_entries db') = [debitEntry res, creditEntry res]
     \<and> wallet_id (debitEntry res) = 4 \<and> wallet_id (creditEntry res) = 5
     \<and> amount (debitEntry res) = 2500 \<and> amount (creditEntry res) = 2500
     \<and> transaction_sum ''T2'' 1 (ledger_entries db') = 0"
proof -
  obtain res db' where run: "createTransaction demo_spend_params ''T2'' demo_db = (Inr res, db')"
    using demo_spend_returns by blast
  have fresh: "''T2'' \<notin> transaction_id ` set (ledger_entries demo_db)"
    by (simp add: demo_data)
  note law = createTransaction_zero_sum [OF run fresh, unfolded demo_spend_params_def, simplified]
  from law run fresh show ?thesis
    by blast
qed

section \<open>Idempotency of the reference key\<close>

lemma find_append_None:
  "find P xs = None \<Longrightarrow> find P (xs @ ys) = find P ys"
  by (induction xs) (auto split: if_splits)

lemma find_member:
  "e0 \<in> set es \<Longrightarrow> P e0 \<Longrightarrow> \<exists>e. find P es = Some e \<and> e \<in> set es \<and> P e"
  by (induction es) auto

lemma createCreditOnlyTransaction_Inr:
  assumes "createCreditOnlyTransaction w a amt tt r d m uuid db = (Inr res, db')"
  shows "findLedgerEntryByReferenceId r \<lparr>store = db, held = []\<rparr> = None"
    and "s_transactionId res = uuid"
    and "db' = db\<lparr>ledger_entries := ledger_entries db @ [entry res],
                   ledger_seq := ledger_seq db + 1\<rparr>"
    and "transaction_id (entry res) = uuid \<and> wallet_id (entry res) = w
         \<and> asset_type_id (entry res) = a \<and> entry_type (entry res) = CREDIT
         \<and> amount (entry res) = amt \<and> reference_id (entry res) = r"
  using assms
  unfolding createCreditOnlyTransaction_def withTransaction_def
    createCreditOnlyTransaction_callback_def
  by (auto simp: Let_def new_row_def
           dest!: insertLedgerEntry_Inr lockWalletsInOrder_Inr
           split: option.splits sum.splits prod.splits if_splits)

lemma createDebitOnlyTransaction_Inr:
  assumes "createDebitOnlyTransaction w a amt tt r d m uuid db = (Inr res, db')"
  shows "findLedgerEntryByReferenceId r \<lparr>store = db, held = []\<rparr> = None"
    and "amt \<le> calculateBalance w a \<lparr>store = db, held = []\<rparr>"
    and "s_transactionId res = uuid"
    and "db' = db\<lparr>ledger_entries := ledger_entries db @ [entry res],
                   ledger_seq := ledger_seq db + 1\<rparr>"
    and "transaction_id (entry res) = uuid \<and> wallet_id (entry res) = w
         \<and> asset_type_id (entry res) = a \<and> entry_type (entry res) = DEBIT
         \<and> amount (entry res) = amt \<and> reference_id (entry res) = r"
  using assms
  unfolding createDebitOnlyTransaction_def withTransaction_def
    createDebitOnlyTransaction_callback_def
  by (auto simp: Let_def new_row_def calculateBalance_def
           dest!: insertLedgerEntry_Inr lockWalletsInOrder_Inr
           split: option.splits sum.splits prod.splits if_splits)

text \<open>A reference key that is already in the ledger stops each operation at its first step.\<close>

lemma createTransaction_duplicate:
  "findLedgerEntryByReferenceId (referenceId p) \<lparr>store = db, held = []\<rparr> = Some e \<Longrightarrow>
   createTransaction p uuid db
     = (Inl (DuplicateTransactionError (referenceId p) (transaction_id e)), db)"
  by (simp add: createTransaction_def withTransaction_def createTransaction_callback_def)

lemma createCreditOnlyTransaction_duplicate:
  "findLedgerEntryByReferenceId r \<lparr>store = db, held = []\<rparr> = Some e \<Longrightarrow>
   createCreditOnlyTransaction w a amt tt r d m uuid db
     = (Inl (DuplicateTransactionError r (transaction_id e)), db)"
  by (simp add: createCreditOnlyTransaction_def withTransaction_def
        createCreditOnlyTransaction_callback_def)

lemma createDebitOnlyTransaction_duplicate:
  "findLedgerEntryByReferenceId r \<lparr>store = db, held = []\<rparr> = Some e \<Longrightarrow>
   createDebitOnlyTransaction w a amt tt r d m uuid db
     = (Inl (DuplicateTransactionError r (transaction_id e)), db)"
  by (simp add: createDebitOnlyTransaction_def withTransaction_def
        createDebitOnlyTransaction_callback_def)

lemma find_after_append:
  assumes "findLedgerEntryByReferenceId r \<lparr>store = db, held = []\<rparr> = None"
    and "reference_id e = r"
  shows "findLedgerEntryByReferenceId r
           \<lparr>store = db\<lparr>ledger_entries := ledger_entries db @ e # rest, ledger_seq := n\<rparr>,
             held = []\<rparr> = Some e"
  using assms by (simp add: findLedgerEntryByReferenceId_def find_append_None)

lemma duplicate_found:
  assumes "e0 \<in> set (ledger_entries db)" and "reference_id e0 = r"
  shows "\<exists>e. e \<in> set (ledger_entries db) \<and> reference_id e = r
           \<and> findLedgerEntryByReferenceId r \<lparr>store = db, held = []\<rparr> = Some e"
  using find_member [of e0 "ledger_entries db" "\<lambda>e. reference_id e = r"] assms
  by (auto simp: findLedgerEntryByReferenceId_def)

lemma createTransaction_replay:
  assumes run: "createTransaction p uuid db = (Inr res, db1)"
  shows "transactionId res = uuid
     \<and> createTransaction p uuid2 db1
         = (Inl (DuplicateTransactionError (referenceId p) uuid), db1)"
proof -
  note f = createTransaction_Inr [OF run]
  have "findLedgerEntryByReferenceId (referenceId p) \<lparr>store = db1, held = []\<rparr>
          = Some (debitEntry res)"
    unfolding f(4) using f(1) f(5) by (intro find_after_append) simp_all
  from createTransaction_duplicate [OF this, of uuid2] f(3) f(5) show ?thesis
    by simp
qed

lemma createCreditOnlyTransaction_replay:
  assumes run: "createCreditOnlyTransaction w a amt tt r d m uuid db = (Inr sres, db1)"
  shows "s_transactionId sres = uuid
     \<and> createCreditOnlyTransaction w a amt tt r d m uuid2 db1
         = (Inl (DuplicateTransactionError r uuid), db1)"
proof -
  note f = createCreditOnlyTransaction_Inr [OF run]
  have "findLedgerEntryByReferenceId r \<lparr>store = db1, held = []\<rparr> = Some (entry sres)"
    unfolding f(3) using f(1) f(4) by (intro find_after_append) simp_all
  from createCreditOnlyTransaction_duplicate [OF this, of w a amt tt d m uuid2] f(2) f(4)
  show ?thesis
    by simp
qed

lemma createDebitOnlyTransaction_replay:
  assumes run: "createDebitOnlyTransaction w a amt tt r d m uuid db = (Inr sres, db1)"
  shows "s_transactionId sres = uuid
     \<and> createDebitOnlyTransaction w a amt tt r d m uuid2 db1
         = (Inl (DuplicateTransactionError r uuid), db1)"
proof -
  note f = createDebitOnlyTransaction_Inr [OF run]
  have "findLedgerEntryByReferenceId r \<lparr>store = db1, held = []\<rparr> = Some (entry sres)"
    unfolding f(4) using f(1) f(5) by (intro find_after_append) simp_all
  from createDebitOnlyTransaction_duplicate [OF this, of w a amt tt d m uuid2] f(3) f(5)
  show ?thesis
    by simp
qed

text \<open>
  Claim C4. When the ledger already holds an entry with the reference key, each of the
  three write operations fails with \<open>DuplicateTransactionError\<close> carrying the key and the
  transaction id of an existing entry with that key, whatever the locks and balances are,
  and leaves the store as it was. When an operation has returned with transaction id
  \<open>uuid\<close>, calling it again with the same arguments (and whatever id the generator
  yields this time) fails with \<open>DuplicateTransactionError\<close> carrying \<open>uuid\<close> and
  writes nothing.
\<close>

theorem duplicate_reference_fails_fast:
  "(e0 \<in> set (ledger_entries db) \<and> reference_id e0 = r \<and> referenceId p = r \<longrightarrow>
      (\<exists>e. e \<in> set (ledger_entries db) \<and> reference_id e = r
         \<and> createTransaction p uuid db
              = (Inl (DuplicateTransactionError r (transaction_id e)), db)
         \<and> createCreditOnlyTransaction w a amt tt r d m uuid db
              = (Inl (DuplicateTransactionError r (transaction_id e)), db)
         \<and> createDebitOnlyTransaction w a amt tt r d m uuid db
              = (Inl (DuplicateTransactionError r (transaction_id e)), db)))
   \<and> (createTransaction p uuid db = (Inr res, db1) \<longrightarrow>
        transactionId res = uuid
        \<and> createTransaction p uuid2 db1
            = (Inl (DuplicateTransactionError (referenceId p) uuid), db1))
   \<and> (createCreditOnlyTransaction w a amt tt r d m uuid db = (Inr cres, db2) \<longrightarrow>
        s_transactionId cres = uuid
        \<and> createCreditOnlyTransaction w a amt tt r d m uuid2 db2
            = (Inl (DuplicateTransactionError r uuid), db2))
   \<and> (createDebitOnlyTransaction w a amt tt r d m uuid db = (Inr dres, db3) \<longrightarrow>
        s_transactionId dres = uuid
        \<and> createDebitOnlyTransaction w a amt tt r d m uuid2 db3
            = (Inl (DuplicateTransactionError r uuid), db3))"
proof (intro conjI impI)
  assume h: "e0 \<in> set (ledger_entries db) \<and> reference_id e0 = r \<and> referenceId p = r"
  then obtain e where e: "e \<in> set (ledger_entries db)" "reference_id e = r"
      "findLedgerEntryByReferenceId r \<lparr>store = db, held = []\<rparr> = Some e"
    using duplicate_found [of e0 db r] by blast
  from e(3) h have "createTransaction p uuid db
      = (Inl (DuplicateTransactionError r (transaction_id e)), db)"
    using createTransaction_duplicate [of p db e uuid] by simp
  with e show "\<exists>e. e \<in> set (ledger_entries db) \<and> reference_id e = r
         \<and> createTransaction p uuid db
              = (Inl (DuplicateTransactionError r (transaction_id e)), db)
         \<and> createCreditOnlyTransaction w a amt tt r d m uuid db
              = (Inl (DuplicateTransactionError r (transaction_id e)), db)
         \<and> createDebitOnlyTransaction w a amt tt r d m uuid db
              = (Inl (DuplicateTransactionError r (transaction_id e)), db)"
    using createCreditOnlyTransaction_duplicate [OF e(3)]
      createDebitOnlyTransaction_duplicate [OF e(3)]
    by blast
qed (simp_all add: createTransaction_replay createCreditOnlyTransaction_replay
       createDebitOnlyTransaction_replay)

lemma demo_bonus_returns:
  "\<exists>res db'. createCreditOnlyTransaction 4 1 1000 BONUS ''bonus_001'' None None ''T3'' demo_db
               = (Inr res, db')"
  by (simp add: demo_data createCreditOnlyTransaction_def
        createCreditOnlyTransaction_callback_def ledger_steps Let_def)

lemma demo_adjust_returns:
  "\<exists>res db'. createDebitOnlyTransaction 4 1 500 REFUND ''adjust_001'' None None ''T4'' demo_db
               = (Inr res, db')"
  by (simp add: demo_data createDebitOnlyTransaction_def
        createDebitOnlyTransaction_callback_def ledger_steps Let_def)

theorem duplicate_reference_fails_fast_witness:
  "createTransaction demo_topup_retry_params ''T9'' demo_db
     = (Inl (DuplicateTransactionError ''topup_001'' ''T1''), demo_db)
   \<and> (\<exists>res db1. createTransaction demo_spend_params ''T2'' demo_db = (Inr res, db1)
         \<and> transactionId res = ''T2''
         \<and> createTransaction demo_spend_params ''T9'' db1
             = (Inl (DuplicateTransactionError ''spend_001'' ''T2''), db1))
   \<and> (\<exists>res db2. createCreditOnlyTransaction 4 1 1000 BONUS ''bonus_001'' None None ''T3'' demo_db
                   = (Inr res, db2)
         \<and> createCreditOnlyTransaction 4 1 1000 BONUS ''bonus_001'' None None ''T9'' db2
             = (Inl (DuplicateTransactionError ''bonus_001'' ''T3''), db2))
   \<and> (\<exists>res db3. createDebitOnlyTransaction 4 1 500 REFUND ''adjust_001'' None None ''T4'' demo_db
                   = (Inr res, db3)
         \<and> createDebitOnlyTransaction 4 1 500 REFUND ''adjust_001'' None None ''T9'' db3
             = (Inl (DuplicateTransactionError ''adjust_001'' ''T4''), db3))"
proof -
  obtain r1 db1 where run1: "createTransaction demo_spend_params ''T2'' demo_db = (Inr r1, db1)"
    using demo_spend_returns by blast
  obtain r2 db2 where run2:
    "createCreditOnlyTransaction 4 1 1000 BONUS ''bonus_001'' None None ''T3'' demo_db = (Inr r2, db2)"
    using demo_bonus_returns by blast
  obtain r3 db3 where run3:
    "createDebitOnlyTransaction 4 1 500 REFUND ''adjust_001'' None None ''T4'' demo_db = (Inr r3, db3)"
    using demo_adjust_returns by blast
  let ?e0 = "demo_entries ! 2"
  have present: "?e0 \<in> set (ledger_entries demo_db) \<and> reference_id ?e0 = ''topup_001''
                 \<and> referenceId demo_topup_retry_params = ''topup_001''"
    by (simp add: demo_data demo_topup_retry_params_def)
  have only: "e \<in> set (ledger_entries demo_db) \<Longrightarrow> reference_id e = ''topup_001''
              \<Longrightarrow> transaction_id e = ''T1''" for e
    by (auto simp: demo_data)
  note law = duplicate_reference_fails_fast
    [of ?e0 demo_db "''topup_001''" demo_topup_retry_params "''T9''" 0 0 0 TOPUP None None]
  from law present only
  have a: "createTransaction demo_topup_retry_params ''T9'' demo_db
            = (Inl (DuplicateTransactionError ''topup_001'' ''T1''), demo_db)"
    by metis
  note b = duplicate_reference_fails_fast
    [of _ demo_db "''bonus_001''" demo_spend_params "''T2''" _ _ _ _ _ _ r1 db1 "''T9''",
     THEN conjunct2, THEN conjunct1, rule_format, OF run1]
  note c = duplicate_reference_fails_fast
    [of _ demo_db "''bonus_001''" _ "''T3''" 4 1 1000 BONUS None None _ _ "''T9''" r2 db2,
     THEN conjunct2, THEN conjunct2, THEN conjunct1, rule_format, OF run2]
  note d = duplicate_reference_fails_fast
    [of _ demo_db "''adjust_001''" _ "''T4''" 4 1 500 REFUND None None _ _ "''T9''" _ _ r3 db3,
     THEN conjunct2, THEN conjunct2, THEN conjunct2, rule_format, OF run3]
  from a b c d run1 run2 run3 show ?thesis
    by (simp add: demo_spend_params_def)
qed

section \<open>Lock acquisition\<close>

lemma lockWalletsInOrder_contended:
  "contended ids (store c) \<Longrightarrow>
     lockWalletsInOrder ids c = (Inl (StorageError LockNotAvailable), c)"
  by (simp add: lockWalletsInOrder_def contended_def Let_def)


section \<open>Insufficient funds\<close>






section \<open>Lock contention in the three operations\<close>

lemma createTransaction_contended:
  assumes "findLedgerEntryByReferenceId (referenceId p) \<lparr>store = db, held = []\<rparr> = None"
    and "contended [sourceWalletId p, targetWalletId p] db"
  shows "createTransaction p uuid db
     = (Inl (ConcurrencyError ''Unable to acquire wallet locks, please retry''), db)"
  using assms
  by (simp add: createTransaction_def withTransaction_def createTransaction_callback_def
        lockWalletsInOrder_contended)

lemma createCreditOnlyTransaction_contended:
  assumes "findLedgerEntryByReferenceId r \<lparr>store = db, held = []\<rparr> = None"
    and "contended [w] db"
  shows "createCreditOnlyTransaction w a amt tt r d m uuid db
     = (Inl (StorageError LockNotAvailable), db)"
  using assms
  by (simp add: createCreditOnlyTransaction_def withTransaction_def
        createCreditOnlyTransaction_callback_def lockWalletsInOrder_contended)

lemma createDebitOnlyTransaction_contended:
  assumes "findLedgerEntryByReferenceId r \<lparr>store = db, held = []\<rparr> = None"
    and "contended [w] db"
  shows "createDebitOnlyTransaction w a amt tt r d m uuid db
     = (Inl (StorageError LockNotAvailable), db)"
  using assms
  by (simp add: createDebitOnlyTransaction_def withTransaction_def
        createDebitOnlyTransaction_callback_def lockWalletsInOrder_contended)

text \<open>
  Claim C6, evaluated where wallet 4 is locked by another transaction. The transfer fails
  with \<open>ConcurrencyError\<close>; the credit-only and the debit-only operation call
  \<open>lockWalletsInOrder\<close> without the \<open>try/catch\<close> of the transfer and fail with the
  PostgreSQL error \<open>lock_not_available\<close> itself.
\<close>

theorem single_sided_lock_failure_is_raw:
  "contended [4] demo_db_alice_locked
   \<and> createCreditOnlyTransaction 4 1 1000 BONUS ''bonus_001'' None None ''T3'' demo_db_alice_locked
       = (Inl (StorageError LockNotAvailable), demo_db_alice_locked)
   \<and> createDebitOnlyTransaction 4 1 500 REFUND ''adjust_001'' None None ''T4'' demo_db_alice_locked
       = (Inl (StorageError LockNotAvailable), demo_db_alice_locked)
   \<and> createTransaction demo_spend_params ''T2'' demo_db_alice_locked
       = (Inl (ConcurrencyError ''Unable to acquire wallet locks, please retry''),
          demo_db_alice_locked)"
proof -
  have c: "contended [4] demo_db_alice_locked"
    "contended [sourceWalletId demo_spend_params, targetWalletId demo_spend_params]
       demo_db_alice_locked"
    by (simp_all add: contended_def lock_rows_def demo_db_alice_locked_def demo_data
          demo_spend_params_def)
  have n: "findLedgerEntryByReferenceId ''bonus_001'' \<lparr>store = demo_db_alice_locked, held = []\<rparr> = None"
    "findLedgerEntryByReferenceId ''adjust_001'' \<lparr>store = demo_db_alice_locked, held = []\<rparr> = None"
    "findLedgerEntryByReferenceId (referenceId demo_spend_params)
       \<lparr>store = demo_db_alice_locked, held = []\<rparr> = None"
    by (simp_all add: findLedgerEntryByReferenceId_def demo_db_alice_locked_def demo_data
          demo_spend_params_def)
  show ?thesis
    using c(1) createCreditOnlyTransaction_contended [OF n(1) c(1)]
      createDebitOnlyTransaction_contended [OF n(2) c(1)]
      createTransaction_contended [OF n(3) c(2)]
    by simp
qed

section \<open>Lock order\<close>

lemma distinct_map_sort_key:
  "distinct (map f (sort_key g xs)) = distinct (map f xs)"
  by (rule mset_eq_imp_distinct_iff) simp





section \<open>Partial lock sets\<close>











section \<open>Pagination\<close>

lemma length_ordered_history:
  "length (ordered_history w a db) = length (entries_of w a (ledger_entries db))"
  by (simp add: ordered_history_def transaction_data_def Let_def)

lemma js_slice_prefix:
  "0 \<le> limit \<Longrightarrow> limit < int (length xs) \<Longrightarrow> js_slice 0 limit xs = take (nat limit) xs"
  by (simp add: js_slice_def Let_def min_def)

lemma js_slice_Nil: "js_slice 0 limit [] = []"
  by (simp add: js_slice_def Let_def)

lemma page_hasMore:
  assumes "- 1 \<le> limit"
  shows "(limit < int (length (take (nat (limit + 1)) D))) = (limit < int (length D))"
  using assms by (auto simp: min_def)

lemma page_slice:
  assumes "- 1 \<le> limit"
  shows "(if limit < int (length (take (nat (limit + 1)) D))
          then js_slice 0 limit (take (nat (limit + 1)) D)
          else take (nat (limit + 1)) D) = take (nat limit) D"
proof (cases "limit < 0")
  case True
  with assms have "limit = - 1" by simp
  then show ?thesis by (simp add: js_slice_Nil)
next
  case nonneg: False
  show ?thesis
  proof (cases "limit < int (length (take (nat (limit + 1)) D))")
    case True
    with nonneg have "js_slice 0 limit (take (nat (limit + 1)) D)
        = take (nat limit) (take (nat (limit + 1)) D)"
      by (intro js_slice_prefix) simp_all
    also from nonneg have "\<dots> = take (nat limit) D"
      by (simp add: min_def)
    finally show ?thesis using True by simp
  next
    case False
    with page_hasMore [OF assms, of D] have "\<not> limit < int (length D)"
      by blast
    with nonneg have "length D \<le> nat limit" by simp
    then have "take (nat (limit + 1)) D = D" "take (nat limit) D = D"
      using nonneg by simp_all
    with False show ?thesis by (simp only: if_False)
  qed
qed

lemma getTransactionHistoryWithBalance_Inr:
  assumes "getTransactionHistoryWithBalance w a limit offset db = Inr page"
  shows "- 1 \<le> limit" and "0 \<le> offset"
    and "history_query w a (limit + 1) offset db
           = Inr (take (nat (limit + 1)) (drop (nat offset) (ordered_history w a db)))"
    and "hasMore page = (limit < int (length (drop (nat offset) (ordered_history w a db))))"
    and "transactions page = take (nat limit) (drop (nat offset) (ordered_history w a db))"
proof -
  from assms show lim: "- 1 \<le> limit" and off: "0 \<le> offset"
    by (auto simp: getTransactionHistoryWithBalance_def history_query_def split: if_splits)
  then show q: "history_query w a (limit + 1) offset db
           = Inr (take (nat (limit + 1)) (drop (nat offset) (ordered_history w a db)))"
    by (simp add: history_query_def)
  let ?D = "drop (nat offset) (ordered_history w a db)"
  from assms have page: "page = \<lparr> transactions =
        (if limit < int (length (take (nat (limit + 1)) ?D))
         then js_slice 0 limit (take (nat (limit + 1)) ?D)
         else take (nat (limit + 1)) ?D),
        hasMore = (limit < int (length (take (nat (limit + 1)) ?D))) \<rparr>"
    unfolding getTransactionHistoryWithBalance_def q Let_def by simp
  show "hasMore page = (limit < int (length ?D))"
    unfolding page using page_hasMore [OF lim, of ?D] by simp
  show "transactions page = take (nat limit) ?D"
    unfolding page using page_slice [OF lim, of ?D] by simp
qed

text \<open>
  Claim C8. When the history query returns a page for \<open>(account, asset, limit, offset)\<close>,
  it has run the statement with \<open>LIMIT limit + 1 OFFSET offset\<close>, \<open>hasMore\<close> says
  whether more than \<open>limit\<close> rows came back, and the page holds the first \<open>limit\<close>
  of them; so \<open>hasMore\<close> holds exactly when strictly more than \<open>limit\<close> entries of
  the pair lie beyond \<open>offset\<close>. The query returns a page whenever the statement is
  accepted, that is, for \<open>limit \<ge> -1\<close> and \<open>offset \<ge> 0\<close>.
\<close>

theorem history_pagination:
  "(getTransactionHistoryWithBalance w a limit offset db = Inr page \<longrightarrow>
      (\<exists>result. history_query w a (limit + 1) offset db = Inr result
         \<and> result = take (nat (limit + 1)) (drop (nat offset) (ordered_history w a db))
         \<and> hasMore page = (limit < int (length result))
         \<and> transactions page = take (nat limit) result)
      \<and> hasMore page
          = (limit < int (length (drop (nat offset) (entries_of w a (ledger_entries db))))))
   \<and> (- 1 \<le> limit \<and> 0 \<le> offset \<longrightarrow>
        (\<exists>page. getTransactionHistoryWithBalance w a limit offset db = Inr page))"
proof (intro conjI impI)
  assume run: "getTransactionHistoryWithBalance w a limit offset db = Inr page"
  note f = getTransactionHistoryWithBalance_Inr [OF run]
  let ?D = "drop (nat offset) (ordered_history w a db)"
  have t: "take (nat limit) (take (nat (limit + 1)) ?D) = take (nat limit) ?D"
    by (simp add: min_def)
  have h: "hasMore page = (limit < int (length (take (nat (limit + 1)) ?D)))"
    unfolding f(4) using page_hasMore [OF f(1), of ?D] by simp
  from f(3) h f(5) t
  show "\<exists>result. history_query w a (limit + 1) offset db = Inr result
         \<and> result = take (nat (limit + 1)) (drop (nat offset) (ordered_history w a db))
         \<and> hasMore page = (limit < int (length result))
         \<and> transactions page = take (nat limit) result"
    by (intro exI [of _ "take (nat (limit + 1)) ?D"]) (simp only: simp_thms)
  from f(4) show "hasMore page
          = (limit < int (length (drop (nat offset) (entries_of w a (ledger_entries db)))))"
    by (simp add: length_ordered_history)
next
  assume "- 1 \<le> limit \<and> 0 \<le> offset"
  then show "\<exists>page. getTransactionHistoryWithBalance w a limit offset db = Inr page"
    by (simp add: getTransactionHistoryWithBalance_def history_query_def Let_def)
qed


lemmas history_steps =
  getTransactionHistoryWithBalance_def history_query_def ordered_history_def transaction_data_def
  history_row_def window_sum_def history_key_def row_key_def js_slice_def entries_of_def
  signed_amount_def

lemma demo_history_page:
  "\<exists>page. getTransactionHistoryWithBalance 4 1 1 0 demo_db_after_spend = Inr page
      \<and> map h_id (transactions page) = [5] \<and> map balance_after (transactions page) = [102500]"
  by (simp add: demo_db_after_spend_def demo_data history_steps Let_def)

theorem history_pagination_witness:
  "\<exists>page. getTransactionHistoryWithBalance 4 1 1 0 demo_db_after_spend = Inr page
      \<and> map h_id (transactions page) = [5]
      \<and> length (entries_of 4 1 (ledger_entries demo_db_after_spend)) = 3
      \<and> hasMore page"
proof -
  obtain page where run: "getTransactionHistoryWithBalance 4 1 1 0 demo_db_after_spend = Inr page"
    and ids: "map h_id (transactions page) = [5]"
    using demo_history_page by auto
  have n: "length (entries_of 4 1 (ledger_entries demo_db_after_spend)) = 3"
    by (simp add: demo_db_after_spend_def demo_data entries_of_def)
  note law = history_pagination [of 4 1 1 0 demo_db_after_spend page]
  from law have "\<exists>page. getTransactionHistoryWithBalance 4 1 1 0 demo_db_after_spend = Inr page"
    by simp
  from law run have "hasMore page
      = (1 < int (length (drop (nat 0) (entries_of 4 1 (ledger_entries demo_db_after_spend)))))"
    by blast
  with n have "hasMore page" by simp
  with run ids n show ?thesis by auto
qed

section \<open>Running balance\<close>

lemma distinct_history_key:
  "distinct (map le_id es) \<Longrightarrow> distinct (map history_key es)"
  by (induction es) (auto simp: history_key_def)

lemma prefix_through_sorted:
  assumes "sorted (map history_key L)" and "distinct (map le_id L)" and "e \<in> set L"
  shows "prefix_through (\<lambda>x. le_id x = le_id e) L
           = filter (\<lambda>x. history_key x \<le> history_key e) L"
  using assms
proof (induction L)
  case Nil
  then show ?case by simp
next
  case (Cons x xs)
  show ?case
  proof (cases "le_id x = le_id e")
    case True
    with Cons.prems have xe: "x = e"
      by (auto simp: image_iff)
    from Cons.prems have "\<forall>y \<in> set xs. history_key x \<le> history_key y"
      by simp
    moreover from Cons.prems have "\<forall>y \<in> set xs. le_id y \<noteq> le_id x"
      by (auto simp: image_iff)
    ultimately have "\<forall>y \<in> set xs. \<not> history_key y \<le> history_key x"
      by (auto simp: history_key_def)
    then have "filter (\<lambda>y. history_key y \<le> history_key x) xs = []"
      by (simp add: filter_empty_conv)
    with True xe show ?thesis by simp
  next
    case False
    with Cons.prems have mem: "e \<in> set xs" by auto
    with Cons.prems have "history_key x \<le> history_key e" by simp
    moreover from Cons.prems mem have
      "prefix_through (\<lambda>x. le_id x = le_id e) xs
         = filter (\<lambda>x. history_key x \<le> history_key e) xs"
      by (intro Cons.IH) simp_all
    ultimately show ?thesis using False by simp
  qed
qed

lemma sum_list_filter_sort_key:
  "sum_list (map f (filter P (sort_key k xs))) = sum_list (map (f :: 'a \<Rightarrow> int) (filter P xs))"
proof -
  have "mset (map f (filter P (sort_key k xs))) = mset (map f (filter P xs))"
    by simp
  then show ?thesis
    by (metis sum_mset_sum_list)
qed

lemma window_sum_cumulative:
  assumes "distinct (map le_id part)" and "e \<in> set part"
  shows "window_sum part e = cumulative_balance part (le_id e)"
proof -
  let ?L = "sort_key history_key part"
  have "prefix_through (\<lambda>x. le_id x = le_id e) ?L
          = filter (\<lambda>x. history_key x \<le> history_key e) ?L"
    using assms by (intro prefix_through_sorted) (simp_all add: distinct_map_sort_key)
  then show ?thesis
    by (simp add: window_sum_def cumulative_balance_def sum_list_filter_sort_key)
qed

lemma row_key_history_row: "row_key (history_row part e) = history_key e"
  by (simp add: row_key_def history_row_def history_key_def)

lemma map_row_key_transaction_data:
  "map row_key (transaction_data w a db) = map history_key (entries_of w a (ledger_entries db))"
  by (simp add: transaction_data_def Let_def row_key_history_row)

lemma ordered_history_newest_first:
  assumes "distinct (map le_id (ledger_entries db))"
  shows "sorted_wrt (\<lambda>s t. row_key t < row_key s) (ordered_history w a db)"
proof -
  let ?rows = "transaction_data w a db"
  have "distinct (map le_id (entries_of w a (ledger_entries db)))"
    using assms by (simp add: entries_of_def distinct_map_filter)
  then have "distinct (map row_key ?rows)"
    by (simp add: map_row_key_transaction_data distinct_history_key)
  then have "distinct (map row_key (sort_key row_key ?rows))"
    by (simp add: distinct_map_sort_key)
  then have "sorted_wrt (<) (map row_key (sort_key row_key ?rows))"
    by (simp add: strict_sorted_iff)
  then have "sorted_wrt (\<lambda>s t. row_key s < row_key t) (sort_key row_key ?rows)"
    by (simp add: sorted_wrt_map)
  then show ?thesis
    by (simp add: ordered_history_def sorted_wrt_rev)
qed

lemma ordered_history_rows:
  "t \<in> set (ordered_history w a db) \<Longrightarrow>
     \<exists>e \<in> set (entries_of w a (ledger_entries db)).
        t = history_row (entries_of w a (ledger_entries db)) e"
  by (auto simp: ordered_history_def transaction_data_def Let_def)

text \<open>
  Claim C9. The ledger table has a primary key on \<open>id\<close>. Every row of a page that the
  history query returns belongs to an entry of the pair, and its \<open>balance_after\<close> is
  the signed sum of the pair's entries, ordered by creation time and then entry id, up to
  and including that entry. The rows of the page are in strictly descending order of
  (creation time, entry id): newest first.
\<close>

theorem history_running_balance:
  assumes "distinct (map le_id (ledger_entries db))"
    and "getTransactionHistoryWithBalance w a limit offset db = Inr page"
  shows "(\<forall>t \<in> set (transactions page).
            (\<exists>e \<in> set (entries_of w a (ledger_entries db)). h_id t = le_id e)
            \<and> balance_after t = cumulative_balance (entries_of w a (ledger_entries db)) (h_id t))
    \<and> sorted_wrt (\<lambda>s t. row_key t < row_key s) (transactions page)"
proof -
  let ?part = "entries_of w a (ledger_entries db)"
  note f = getTransactionHistoryWithBalance_Inr [OF assms(2)]
  have d: "distinct (map le_id ?part)"
    using assms(1) by (simp add: entries_of_def distinct_map_filter)
  have "(\<exists>e \<in> set ?part. h_id t = le_id e)
        \<and> balance_after t = cumulative_balance ?part (h_id t)"
    if "t \<in> set (transactions page)" for t
  proof -
    from that have "t \<in> set (ordered_history w a db)"
      unfolding f(5) by (blast dest: in_set_takeD in_set_dropD)
    then obtain e where e: "e \<in> set ?part" "t = history_row ?part e"
      using ordered_history_rows by blast
    then have "h_id t = le_id e" "balance_after t = window_sum ?part e"
      by (simp_all add: history_row_def)
    with e(1) window_sum_cumulative [OF d e(1)] show ?thesis
      by auto
  qed
  moreover have "sorted_wrt (\<lambda>s t. row_key t < row_key s) (transactions page)"
    unfolding f(5)
    using ordered_history_newest_first [OF assms(1), of w a]
    by (intro sorted_wrt_take sorted_wrt_drop)
  ultimately show ?thesis by blast
qed

lemma demo_history_two:
  "\<exists>page. getTransactionHistoryWithBalance 4 1 2 0 demo_db_after_spend = Inr page
      \<and> map h_id (transactions page) = [5, 4]"
  by (simp add: demo_db_after_spend_def demo_data history_steps Let_def)

theorem history_running_balance_witness:
  "distinct (map le_id (ledger_entries demo_db_after_spend))
   \<and> (\<exists>page. getTransactionHistoryWithBalance 4 1 2 0 demo_db_after_spend = Inr page
        \<and> map h_id (transactions page) = [5, 4]
        \<and> map balance_after (transactions page) = [102500, 105000])"
proof -
  have d: "distinct (map le_id (ledger_entries demo_db_after_spend))"
    by (simp add: demo_db_after_spend_def demo_data)
  obtain page where run: "getTransactionHistoryWithBalance 4 1 2 0 demo_db_after_spend = Inr page"
    and ids: "map h_id (transactions page) = [5, 4]"
    using demo_history_two by auto
  have c: "cumulative_balance (entries_of 4 1 (ledger_entries demo_db_after_spend)) 5 = 102500"
    "cumulative_balance (entries_of 4 1 (ledger_entries demo_db_after_spend)) 4 = 105000"
    by (simp_all add: cumulative_balance_def entries_of_def history_key_def signed_amount_def
          demo_db_after_spend_def demo_data)
  from history_running_balance [OF d run]
  have "\<forall>t \<in> set (transactions page). balance_after t
          = cumulative_balance (entries_of 4 1 (ledger_entries demo_db_after_spend)) (h_id t)"
    by blast
  then have "map balance_after (transactions page)
      = map (cumulative_balance (entries_of 4 1 (ledger_entries demo_db_after_spend)))
          (map h_id (transactions page))"
    by simp
  with ids c have "map balance_after (transactions page) = [102500, 105000]"
    by simp
  with d run ids show ?thesis by auto
qed

section \<open>Spend\<close>

lemma spend_reports_view_balance:
  assumes "spend request uuid db = (Inr response, db')"
  shows "r_balance response
     = (case getBalancesFromView (sr_user_id request) (Some (sr_asset_code request)) db of
          [] \<Rightarrow> 0
        | b # rest \<Rightarrow> balance b)"
proof -
  have view: "getBalancesFromView u c d' = getBalancesFromView u c db"
    if "createTransaction p uuid db = (Inr res, d')" for u c d' p res
    using createTransaction_Inr(4) [OF that] by (simp add: getBalancesFromView_def)
  from assms show ?thesis
    by (auto simp: spend_def Let_def view split: if_splits sum.splits prod.splits)
qed


lemmas spend_steps =
  spend_def findWalletByUserId_def findAssetTypeByCode_def findSystemWalletByName_def
  REVENUE_def getBalancesFromView_def refreshBalancesView_def view_row_def
  createTransaction_def createTransaction_callback_def

text \<open>
  Claim C7, evaluated on scenario 2 with the materialized view refreshed just before the
  call. The spend commits, the real-time balance of alice goes from 105000 to 102500, and
  the response reports 105000: \<open>spend\<close> takes the balance from the view, which nothing
  refreshes after the transaction.
\<close>

theorem spend_reports_stale_balance:
  "(case spend demo_spend_request ''T2'' (refreshBalancesView demo_db) of
      (Inl err, db') \<Rightarrow> False
    | (Inr response, db') \<Rightarrow>
        calculateBalance 4 1 \<lparr>store = refreshBalancesView demo_db, held = []\<rparr> = 105000
        \<and> calculateBalance 4 1 \<lparr>store = db', held = []\<rparr> = 102500
        \<and> r_balance response = 105000)"
  by (simp add: demo_data demo_spend_request_def spend_steps ledger_steps Let_def)

end
